theory Spec2Isabelle
  imports Complex_Main
begin

section \<open>Dates, values and exceptions\<close>

text \<open>
  A calendar day is its day number; the \<^verbatim>\<open>'%Y-%m-%d'\<close> string of a day determines the day
  and the other way round, so a day stands for its string.  A pandas Timestamp is a count
  of nanoseconds.  Prices and balance-sheet figures are floats in the source; they are
  exact reals here, and not-a-number cells are outside the model.  The built-in
  \<^verbatim>\<open>round\<close> acts on a binary float and is not part of the program: it is a parameter
  \<open>round_2dp\<close> of the run, and \<open>round_2dp y\<close> is what \<^verbatim>\<open>round(\<dots>, 2)\<close> returns on the float
  that stands for \<open>y\<close>.
\<close>

type_synonym day = int
type_synonym timestamp = int

definition ns_per_day :: int where
  "ns_per_day = 86400000000000"

definition Timestamp :: "day \<Rightarrow> timestamp" where
  \<comment> \<open>\<^verbatim>\<open>pd.Timestamp(d)\<close> of a date: midnight of that day\<close>
  "Timestamp d = d * ns_per_day"

definition strftime_Ymd :: "timestamp \<Rightarrow> day" where
  \<comment> \<open>\<^verbatim>\<open>ts.strftime('%Y-%m-%d')\<close>: the calendar day of a timestamp\<close>
  "strftime_Ymd ts = ts div ns_per_day"

datatype exn = NetworkError | UnknownTicker | MalformedResponse | KeyError

section \<open>The market-data provider\<close>

text \<open>
  One row of the frame that \<^verbatim>\<open>history\<close> returns: its index entry and its Close column.
  Daily bars carry one row per calendar day, so \<^verbatim>\<open>.loc\<close> on a day yields a scalar.
\<close>

record bar =
  bar_ts :: timestamp
  Close :: real

text \<open>
  A balance sheet frame: line items down the index, report dates across the columns.
  Labels are unique on both axes, so a cell is a function of its two labels.
\<close>

record balance_frame =
  b_index :: "string list"
  b_columns :: "timestamp list"
  b_cell :: "string \<Rightarrow> timestamp \<Rightarrow> real"

record provider =
  history :: "string \<Rightarrow> day \<Rightarrow> day \<Rightarrow> exn + bar list"
  quarterly_balance_sheet :: "string \<Rightarrow> exn + balance_frame"
  balance_sheet :: "string \<Rightarrow> exn + balance_frame"
  info :: "string \<Rightarrow> exn + (string \<rightharpoonup> string)"

section \<open>get_close_price\<close>

definition index_strftime :: "bar list \<Rightarrow> day list" where
  \<comment> \<open>\<^verbatim>\<open>data.index.strftime('%Y-%m-%d')\<close>\<close>
  "index_strftime data = map (\<lambda>b. strftime_Ymd (bar_ts b)) data"

definition loc_Close :: "bar list \<Rightarrow> day \<Rightarrow> exn + real" where
  \<comment> \<open>\<^verbatim>\<open>data.loc[date, "Close"]\<close> once the index holds the day strings\<close>
  "loc_Close data date =
     (case find (\<lambda>b. strftime_Ymd (bar_ts b) = date) data of
        None \<Rightarrow> Inl KeyError
      | Some b \<Rightarrow> Inr (Close b))"

definition get_close_price_try :: "provider \<Rightarrow> string \<Rightarrow> day \<Rightarrow> day \<Rightarrow> day \<Rightarrow> exn + real option" where
  \<comment> \<open>the body of the \<^verbatim>\<open>try\<close> block\<close>
  "get_close_price_try P ticker date start end =
     (case history P ticker start end of
        Inl e \<Rightarrow> Inl e
      | Inr data \<Rightarrow>
          if data = [] \<or> date \<notin> set (index_strftime data) then Inr None
          else (case loc_Close data date of Inl e \<Rightarrow> Inl e | Inr c \<Rightarrow> Inr (Some c)))"

definition get_close_price :: "provider \<Rightarrow> string \<Rightarrow> day \<Rightarrow> day \<Rightarrow> day \<Rightarrow> exn + real option" where
  \<comment> \<open>\<^verbatim>\<open>except Exception\<close>: every exception of the body becomes \<^verbatim>\<open>None\<close>\<close>
  "get_close_price P ticker date start end =
     (case get_close_price_try P ticker date start end of
        Inl e \<Rightarrow> Inr None
      | Inr r \<Rightarrow> Inr r)"

section \<open>get_fundamentals_asof\<close>

record fundamentals =
  shares_outstanding :: "real option"
  total_debt :: "real option"
  outside_equity :: "real option"
  report_date :: "timestamp option"

definition no_fundamentals :: fundamentals where
  "no_fundamentals =
     \<lparr>shares_outstanding = None, total_debt = None, outside_equity = None, report_date = None\<rparr>"

definition empty_frame :: "balance_frame \<Rightarrow> bool" where
  \<comment> \<open>\<^verbatim>\<open>balance.empty\<close>: one of the two axes has length 0\<close>
  "empty_frame b \<longleftrightarrow> b_index b = [] \<or> b_columns b = []"

fun first_present :: "string list \<Rightarrow> balance_frame \<Rightarrow> timestamp \<Rightarrow> real option \<Rightarrow> real option" where
  \<comment> \<open>\<^verbatim>\<open>for row in rows: if row in balance.index: v = balance.loc[row, latest]; break\<close>\<close>
  "first_present [] b latest v = v"
| "first_present (row # rows) b latest v =
     (if row \<in> set (b_index b) then Some (b_cell b row latest)
      else first_present rows b latest v)"

definition valid_dates :: "balance_frame \<Rightarrow> timestamp \<Rightarrow> timestamp list" where
  "valid_dates b as_of = filter (\<lambda>d. d \<le> as_of) (b_columns b)"

definition get_fundamentals_asof :: "provider \<Rightarrow> string \<Rightarrow> day \<Rightarrow> bool \<Rightarrow> exn + fundamentals" where
  "get_fundamentals_asof P ticker as_of_date quarterly =
     (case (if quarterly then quarterly_balance_sheet P ticker else balance_sheet P ticker) of
        Inl e \<Rightarrow> Inl e
      | Inr balance \<Rightarrow>
          if empty_frame balance then Inr no_fundamentals
          else (case valid_dates balance (Timestamp as_of_date) of
                  [] \<Rightarrow> Inr no_fundamentals
                | d # ds \<Rightarrow>
                    let latest = fold max ds d in
                    Inr \<lparr>shares_outstanding =
                           first_present [''Ordinary Shares Number'', ''Share Issued''] balance latest None,
                         total_debt =
                           first_present [''Total Debt'', ''Long Term Debt'', ''Current Debt''] balance latest None,
                         outside_equity =
                           first_present [''Preferred Securities Outside Stock Equity''] balance latest (Some 0),
                         report_date = Some latest\<rparr>))"

section \<open>The reference table\<close>

record ticker_row =
  Fund :: "string option"
  NAV :: "string option"
  Fund_Type :: "string option"
  Subcategory :: "string option"
  Broad_Category :: "string option"
  Geographic_Focus :: "string option"

definition dropna :: "ticker_row list \<Rightarrow> ticker_row list" where
  \<comment> \<open>\<^verbatim>\<open>df_tickers.dropna(subset=["Fund", "NAV"])\<close>\<close>
  "dropna df = filter (\<lambda>r. Fund r \<noteq> None \<and> NAV r \<noteq> None) df"

type_synonym entry = "string \<times> string \<times> string option \<times> string option \<times> string option \<times> string option"

definition entries :: "ticker_row list \<Rightarrow> entry list" where
  \<comment> \<open>the six column lists of the filtered table, zipped: fund, nav, types, subcategories, broadcats, regions\<close>
  "entries df =
     zip (List.map_filter Fund df) (zip (List.map_filter NAV df) (zip (map Fund_Type df)
       (zip (map Subcategory df) (zip (map Broad_Category df) (map Geographic_Focus df)))))"

section \<open>The report\<close>

record report_row =
  Fund_Name :: string
  Broad_Category_col :: "string option"
  Fund_Type_col :: "string option"
  Subcategory_col :: "string option"
  Geographic_Focus_col :: "string option"
  Date :: day
  Fund_Ticker :: string
  Fund_Close_Price :: "real option"
  NAV_Ticker :: string
  NAV_Close_Price :: "real option"
  Discount :: "real option"
  Shares_Outstanding_M :: "real option"
  Total_Debt_M :: "real option"

definition truthy :: "real option \<Rightarrow> bool" where
  \<comment> \<open>Python truth value: \<^verbatim>\<open>None\<close> and \<^verbatim>\<open>0.0\<close> are false\<close>
  "truthy v = (case v of None \<Rightarrow> False | Some x \<Rightarrow> x \<noteq> 0)"


definition millions :: "(real \<Rightarrow> real) \<Rightarrow> real option \<Rightarrow> real option" where
  \<comment> \<open>\<^verbatim>\<open>round(v / 1_000_000, 2) if v else None\<close>\<close>
  "millions round_2dp v = (if truthy v then Some (round_2dp (the v / 1000000)) else None)"

definition discount :: "real option \<Rightarrow> real option \<Rightarrow> real option" where
  \<comment> \<open>\<^verbatim>\<open>fund_price / nav_price if fund_price and nav_price else None\<close>\<close>
  "discount fund_price nav_price =
     (if truthy fund_price \<and> truthy nav_price then Some (the fund_price / the nav_price) else None)"

definition start_date :: "day \<Rightarrow> day" where
  "start_date target_date = target_date - 2"

definition end_date :: "day \<Rightarrow> day" where
  "end_date target_date = target_date + 2"

definition loop_body :: "(real \<Rightarrow> real) \<Rightarrow> provider \<Rightarrow> day \<Rightarrow> entry \<Rightarrow> exn + report_row" where
  "loop_body round_2dp P target_date e =
     (case e of (fund, nav, types, subcategories, broadcats, regions) \<Rightarrow>
       (case info P fund of Inl x \<Rightarrow> Inl x | Inr info_dict \<Rightarrow>
         (case get_fundamentals_asof P fund target_date True of Inl x \<Rightarrow> Inl x | Inr fnd \<Rightarrow>
           (case get_close_price P fund target_date (start_date target_date) (end_date target_date) of
              Inl x \<Rightarrow> Inl x
            | Inr fund_price \<Rightarrow>
               (case get_close_price P nav target_date (start_date target_date) (end_date target_date) of
                  Inl x \<Rightarrow> Inl x
                | Inr nav_price \<Rightarrow>
                    Inr \<lparr>Fund_Name = (case info_dict ''longName'' of None \<Rightarrow> fund | Some n \<Rightarrow> n),
                         Broad_Category_col = broadcats, Fund_Type_col = types,
                         Subcategory_col = subcategories, Geographic_Focus_col = regions,
                         Date = target_date, Fund_Ticker = fund, Fund_Close_Price = fund_price,
                         NAV_Ticker = nav, NAV_Close_Price = nav_price,
                         Discount = discount fund_price nav_price,
                         Shares_Outstanding_M = millions round_2dp (shares_outstanding fnd),
                         Total_Debt_M = millions round_2dp (total_debt fnd)\<rparr>)))))"

fun batch_loop ::
  "(real \<Rightarrow> real) \<Rightarrow> provider \<Rightarrow> day \<Rightarrow> report_row list \<Rightarrow> entry list \<Rightarrow> exn + report_row list" where
  \<comment> \<open>the \<^verbatim>\<open>for\<close> loop; an exception of one iteration ends the run\<close>
  "batch_loop round_2dp P target_date rows [] = Inr rows"
| "batch_loop round_2dp P target_date rows (e # es) =
     (case loop_body round_2dp P target_date e of
        Inl x \<Rightarrow> Inl x
      | Inr row \<Rightarrow> batch_loop round_2dp P target_date (rows @ [row]) es)"

definition build_report ::
  "(real \<Rightarrow> real) \<Rightarrow> provider \<Rightarrow> ticker_row list \<Rightarrow> day \<Rightarrow> exn + report_row list" where
  "build_report round_2dp P df target_date = batch_loop round_2dp P target_date [] (entries (dropna df))"

definition row_entry :: "report_row \<Rightarrow> entry" where
  \<comment> \<open>the columns of a report row that are copied from the reference table\<close>
  "row_entry r =
     (Fund_Ticker r, NAV_Ticker r, Fund_Type_col r, Subcategory_col r,
      Broad_Category_col r, Geographic_Focus_col r)"

section \<open>Runs that differ in the outside equity only\<close>

definition outside_equity_variant :: "balance_frame \<Rightarrow> balance_frame \<Rightarrow> bool" where
  \<comment> \<open>the same frame but for the values in the row "Preferred Securities Outside Stock Equity"\<close>
  "outside_equity_variant b b' \<longleftrightarrow>
     b_index b' = b_index b \<and> b_columns b' = b_columns b \<and>
     (\<forall>row d. row \<noteq> ''Preferred Securities Outside Stock Equity'' \<longrightarrow>
        b_cell b' row d = b_cell b row d)"

definition outside_equity_variant_run :: "provider \<Rightarrow> provider \<Rightarrow> bool" where
  "outside_equity_variant_run P P' \<longleftrightarrow>
     history P' = history P \<and> info P' = info P \<and>
     (\<forall>ticker.
        case quarterly_balance_sheet P ticker of
          Inl e \<Rightarrow> quarterly_balance_sheet P' ticker = Inl e
        | Inr b \<Rightarrow> (\<exists>b'. quarterly_balance_sheet P' ticker = Inr b' \<and> outside_equity_variant b b'))"

section \<open>Sample data\<close>

text \<open>
  A provider with one fund (PDI, NAV ticker XPDIX), three daily bars around day 19723 and a
  balance sheet with three report dates, and variations of it: one whose calls raise, one
  whose balance sheet has dates but no line item, one that reports none of the line items
  looked for, one with a close of 0.0, one with a total debt of 0, and one with another
  outside equity.  The sample runs round with ties to the even hundredth.
\<close>

definition round_half_even :: "real \<Rightarrow> int" where
  "round_half_even y =
     (let f = \<lfloor>y\<rfloor>; d = y - of_int f in
      if d < 1 / 2 then f else if 1 / 2 < d then f + 1 else if even f then f else f + 1)"

definition half_even_hundredths :: "real \<Rightarrow> real" where
  \<comment> \<open>one rounding to hundredths, with ties to the even hundredth; the sample runs use it\<close>
  "half_even_hundredths x = of_int (round_half_even (x * 100)) / 100"

definition sample_bars :: "bar list" where
  "sample_bars =
     [\<lparr>bar_ts = Timestamp 19722, Close = 9.4\<rparr>,
      \<lparr>bar_ts = Timestamp 19723, Close = 9.5\<rparr>,
      \<lparr>bar_ts = Timestamp 19724, Close = 9.6\<rparr>]"

definition sample_nav_bars :: "bar list" where
  "sample_nav_bars =
     [\<lparr>bar_ts = Timestamp 19722, Close = 9.9\<rparr>,
      \<lparr>bar_ts = Timestamp 19723, Close = 10\<rparr>]"

definition sample_balance :: balance_frame where
  "sample_balance =
     \<lparr>b_index = [''Ordinary Shares Number'', ''Share Issued'', ''Long Term Debt'', ''Current Debt'',
                 ''Preferred Securities Outside Stock Equity''],
      b_columns = [Timestamp 19813, Timestamp 19722, Timestamp 19630],
      b_cell = (\<lambda>row d.
         if row = ''Ordinary Shares Number'' then (if d = Timestamp 19722 then 12345678 else 12000000)
         else if row = ''Share Issued'' then 13000000
         else if row = ''Long Term Debt'' then 250000000
         else if row = ''Preferred Securities Outside Stock Equity'' then 5000000
         else 0)\<rparr>"

definition sample_provider :: provider where
  "sample_provider =
     \<lparr>history = (\<lambda>ticker start end.
         if ticker = ''PDI'' then Inr sample_bars
         else if ticker = ''XPDIX'' then Inr sample_nav_bars
         else Inl UnknownTicker),
      quarterly_balance_sheet = (\<lambda>ticker. if ticker = ''PDI'' then Inr sample_balance else Inl UnknownTicker),
      balance_sheet = (\<lambda>ticker. Inl UnknownTicker),
      info = (\<lambda>ticker. Inr (if ticker = ''PDI'' then [''longName'' \<mapsto> ''PIMCO Dynamic Income Fund''] else Map.empty))\<rparr>"

definition faulty_provider :: provider where
  "faulty_provider = sample_provider\<lparr>quarterly_balance_sheet := (\<lambda>ticker. Inl NetworkError),
      history := (\<lambda>ticker start end. Inl NetworkError)\<rparr>"

definition sample_table :: "ticker_row list" where
  "sample_table =
     [\<lparr>Fund = Some ''PDI'', NAV = Some ''XPDIX'', Fund_Type = Some ''CEF'', Subcategory = Some ''Multisector'',
       Broad_Category = Some ''Fixed Income'', Geographic_Focus = None\<rparr>,
      \<lparr>Fund = Some ''PTY'', NAV = None, Fund_Type = Some ''CEF'', Subcategory = None,
       Broad_Category = Some ''Fixed Income'', Geographic_Focus = Some ''US''\<rparr>]"

definition rowless_balance :: balance_frame where
  \<comment> \<open>a frame with one report date and no line item\<close>
  "rowless_balance = \<lparr>b_index = [], b_columns = [Timestamp 19722], b_cell = (\<lambda>row d. 0)\<rparr>"

definition rowless_provider :: provider where
  "rowless_provider = sample_provider\<lparr>quarterly_balance_sheet := (\<lambda>ticker. Inr rowless_balance)\<rparr>"

definition sparse_balance :: balance_frame where
  \<comment> \<open>a frame that reports none of the line items the program looks for\<close>
  "sparse_balance =
     \<lparr>b_index = [''Cash And Cash Equivalents''], b_columns = [Timestamp 19722, Timestamp 19630],
      b_cell = (\<lambda>row d. 1000)\<rparr>"

definition sparse_provider :: provider where
  "sparse_provider = sample_provider\<lparr>quarterly_balance_sheet := (\<lambda>ticker. Inr sparse_balance)\<rparr>"

definition sample_entry :: entry where
  "sample_entry = (''PDI'', ''XPDIX'', Some ''CEF'', Some ''Multisector'', Some ''Fixed Income'', None)"

definition zero_price_provider :: provider where
  \<comment> \<open>the fund closes at 0.0 on the target day\<close>
  "zero_price_provider = sample_provider\<lparr>history := (\<lambda>ticker start end.
       if ticker = ''PDI'' then Inr [\<lparr>bar_ts = Timestamp 19723, Close = 0\<rparr>]
       else history sample_provider ticker start end)\<rparr>"



definition variant_balance :: balance_frame where
  \<comment> \<open>the sample frame with another outside equity\<close>
  "variant_balance = sample_balance\<lparr>b_cell := (\<lambda>row d.
       if row = ''Preferred Securities Outside Stock Equity'' then 9999999
       else b_cell sample_balance row d)\<rparr>"

definition variant_provider :: provider where
  "variant_provider = sample_provider\<lparr>quarterly_balance_sheet := (\<lambda>ticker.
       if ticker = ''PDI'' then Inr variant_balance else Inl UnknownTicker)\<rparr>"

section \<open>Helper lemmas\<close>

lemma get_close_price_returns: "\<exists>r. get_close_price P ticker date start end = Inr r"
  by (simp add: get_close_price_def split: sum.splits)

lemma find_unique:
  assumes "b \<in> set xs" and "Q b" and "\<forall>b' \<in> set xs. Q b' \<longrightarrow> b' = b"
  shows "find Q xs = Some b"
  using assms
proof (induction xs)
  case Nil
  then show ?case by simp
next
  case (Cons x xs)
  show ?case
  proof (cases "Q x")
    case True
    with Cons.prems(3) have "x = b" by simp
    with True show ?thesis by simp
  next
    case False
    with Cons.prems(1,2) have "b \<in> set xs" by auto
    moreover from Cons.prems(3) have "\<forall>b' \<in> set xs. Q b' \<longrightarrow> b' = b" by simp
    ultimately have "find Q xs = Some b" using Cons.IH Cons.prems(2) by blast
    with False show ?thesis by simp
  qed
qed

lemma get_close_price_absent:
  assumes "history P ticker start end = Inr data"
    and "data = [] \<or> date \<notin> set (index_strftime data)"
  shows "get_close_price P ticker date start end = Inr None"
  using assms by (auto simp: get_close_price_def get_close_price_try_def)

lemma get_close_price_present:
  assumes "history P ticker start end = Inr data"
    and "b \<in> set data" and "strftime_Ymd (bar_ts b) = date"
    and "\<forall>b' \<in> set data. strftime_Ymd (bar_ts b') = date \<longrightarrow> b' = b"
  shows "get_close_price P ticker date start end = Inr (Some (Close b))"
proof -
  have f: "find (\<lambda>b. strftime_Ymd (bar_ts b) = date) data = Some b"
    by (rule find_unique [where Q = "\<lambda>b. strftime_Ymd (bar_ts b) = date", OF assms(2) assms(3) assms(4)])
  have m: "date \<in> set (index_strftime data)"
    unfolding index_strftime_def using assms(2,3) by force
  have n: "data \<noteq> []" using assms(2) by auto
  show ?thesis
    using assms(1) f m n
    by (simp add: get_close_price_def get_close_price_try_def loc_Close_def)
qed

lemma fold_max_Max: "fold max ds (d::int) = Max (set (d # ds))"
  by (rule Max.set_eq_fold [symmetric])

section \<open>The price lookup\<close>

text \<open>
  Claim C9.  Whatever the provider does inside \<^const>\<open>get_close_price\<close>, the call returns
  a value and raises nothing; when the provider's \<^const>\<open>history\<close> call raises, the value
  returned is \<^verbatim>\<open>None\<close>.
\<close>

theorem get_close_price_never_raises:
  "(\<exists>r. get_close_price P ticker date start end = Inr r) \<and>
   (\<forall>e. history P ticker start end = Inl e \<longrightarrow>
      get_close_price P ticker date start end = Inr None)"
  by (simp add: get_close_price_def get_close_price_try_def split: sum.splits)

theorem get_close_price_never_raises_witness:
  "history faulty_provider ''PDI'' 19721 19725 = Inl NetworkError \<and>
   get_close_price faulty_provider ''PDI'' 19723 19721 19725 = Inr None"
proof -
  have h: "history faulty_provider ''PDI'' 19721 19725 = Inl NetworkError"
    by (simp add: faulty_provider_def)
  from get_close_price_never_raises [of faulty_provider "''PDI''" 19723 19721 19725]
  have "get_close_price faulty_provider ''PDI'' 19723 19721 19725 = Inr None"
    using h by blast
  with h show ?thesis by simp
qed

text \<open>
  Claim C2.  Over the window from two days before to two days after the target date:
  when the series is empty or the target day is not among the days of the index, the
  result is \<^verbatim>\<open>None\<close>; when a bar of the series is the one bar of the target day, the
  result is the close of that bar.  No other day's close is ever returned in its place.
\<close>

theorem get_close_price_exact_day:
  assumes "history P ticker (start_date target_date) (end_date target_date) = Inr data"
  shows "(data = [] \<or> target_date \<notin> set (index_strftime data) \<longrightarrow>
          get_close_price P ticker target_date (start_date target_date) (end_date target_date) = Inr None) \<and>
         (\<forall>b \<in> set data.
            strftime_Ymd (bar_ts b) = target_date \<and>
            (\<forall>b' \<in> set data. strftime_Ymd (bar_ts b') = target_date \<longrightarrow> b' = b) \<longrightarrow>
            get_close_price P ticker target_date (start_date target_date) (end_date target_date)
              = Inr (Some (Close b)))"
proof (intro conjI impI ballI)
  assume "data = [] \<or> target_date \<notin> set (index_strftime data)"
  with assms show "get_close_price P ticker target_date (start_date target_date) (end_date target_date) = Inr None"
    by (rule get_close_price_absent)
next
  fix b
  assume b: "b \<in> set data"
    and h: "strftime_Ymd (bar_ts b) = target_date \<and>
      (\<forall>b' \<in> set data. strftime_Ymd (bar_ts b') = target_date \<longrightarrow> b' = b)"
  from h have h1: "strftime_Ymd (bar_ts b) = target_date"
    and h2: "\<forall>b' \<in> set data. strftime_Ymd (bar_ts b') = target_date \<longrightarrow> b' = b"
    by blast+
  show "get_close_price P ticker target_date (start_date target_date) (end_date target_date)
      = Inr (Some (Close b))"
    by (rule get_close_price_present [OF assms b h1 h2])
qed

lemma sample_days:
  "strftime_Ymd (Timestamp d) = d"
  by (simp add: strftime_Ymd_def Timestamp_def ns_per_day_def)

theorem get_close_price_exact_day_witness:
  "get_close_price sample_provider ''PDI'' 19723 (start_date 19723) (end_date 19723) = Inr (Some 9.5) \<and>
   get_close_price sample_provider ''PDI'' 19725 (start_date 19725) (end_date 19725) = Inr None"
proof -
  have h: "history sample_provider ''PDI'' (start_date d) (end_date d) = Inr sample_bars" for d
    by (simp add: sample_provider_def)
  have a: "\<lparr>bar_ts = Timestamp 19723, Close = 9.5\<rparr> \<in> set sample_bars"
    by (simp add: sample_bars_def)
  have u: "strftime_Ymd (bar_ts \<lparr>bar_ts = Timestamp 19723, Close = 9.5\<rparr>) = 19723 \<and>
      (\<forall>b' \<in> set sample_bars. strftime_Ymd (bar_ts b') = 19723 \<longrightarrow>
          b' = \<lparr>bar_ts = Timestamp 19723, Close = 9.5\<rparr>)"
    by (simp add: sample_bars_def sample_days)
  have n: "19725 \<notin> set (index_strftime sample_bars)"
    by (simp add: sample_bars_def index_strftime_def sample_days)
  from get_close_price_exact_day [OF h, of 19723] a u
  have 1: "get_close_price sample_provider ''PDI'' 19723 (start_date 19723) (end_date 19723) = Inr (Some 9.5)"
    by fastforce
  from get_close_price_exact_day [OF h, of 19725] n
  have 2: "get_close_price sample_provider ''PDI'' 19725 (start_date 19725) (end_date 19725) = Inr None"
    by blast
  from 1 2 show ?thesis by simp
qed

section \<open>The as-of fundamentals lookup\<close>

lemma fundamentals_none:
  assumes "quarterly_balance_sheet P ticker = Inr balance"
    and "empty_frame balance \<or> valid_dates balance (Timestamp as_of) = []"
  shows "get_fundamentals_asof P ticker as_of True = Inr no_fundamentals"
  using assms by (auto simp: get_fundamentals_asof_def)

lemma fundamentals_selected:
  assumes "quarterly_balance_sheet P ticker = Inr balance"
    and "\<not> empty_frame balance" and "valid_dates balance (Timestamp as_of) \<noteq> []"
  shows "get_fundamentals_asof P ticker as_of True =
     Inr \<lparr>shares_outstanding =
            first_present [''Ordinary Shares Number'', ''Share Issued''] balance
              (Max (set (valid_dates balance (Timestamp as_of)))) None,
          total_debt =
            first_present [''Total Debt'', ''Long Term Debt'', ''Current Debt''] balance
              (Max (set (valid_dates balance (Timestamp as_of)))) None,
          outside_equity =
            first_present [''Preferred Securities Outside Stock Equity''] balance
              (Max (set (valid_dates balance (Timestamp as_of)))) (Some 0),
          report_date = Some (Max (set (valid_dates balance (Timestamp as_of))))\<rparr>"
proof -
  obtain d ds where v: "valid_dates balance (Timestamp as_of) = d # ds"
    using assms(3) by (cases "valid_dates balance (Timestamp as_of)") simp_all
  have m: "Max (insert d (set ds)) = fold max ds d"
    using fold_max_Max [of ds d] by simp
  show ?thesis
    using assms(1,2)
    by (simp add: get_fundamentals_asof_def v Let_def m del: first_present.simps)
qed

lemma Max_valid_dates:
  assumes "valid_dates balance t \<noteq> []"
  shows "Max (set (valid_dates balance t)) \<in> set (b_columns balance) \<and>
         Max (set (valid_dates balance t)) \<le> t"
proof -
  have "Max (set (valid_dates balance t)) \<in> set (valid_dates balance t)"
    using assms by (intro Max_in) simp_all
  then show ?thesis
    by (simp add: valid_dates_def)
qed

lemma fundamentals_report_date:
  assumes "quarterly_balance_sheet P ticker = Inr balance"
    and "get_fundamentals_asof P ticker as_of True = Inr f"
    and "report_date f = Some latest"
  shows "\<not> empty_frame balance \<and> valid_dates balance (Timestamp as_of) \<noteq> [] \<and>
         latest = Max (set (valid_dates balance (Timestamp as_of)))"
proof (cases "empty_frame balance \<or> valid_dates balance (Timestamp as_of) = []")
  case True
  from fundamentals_none [OF assms(1) True] assms(2) have "f = no_fundamentals" by simp
  with assms(3) show ?thesis by (simp add: no_fundamentals_def)
next
  case False
  then have ne: "\<not> empty_frame balance" and vd: "valid_dates balance (Timestamp as_of) \<noteq> []"
    by simp_all
  from fundamentals_selected [OF assms(1) ne vd] assms(2)
  have "report_date f = Some (Max (set (valid_dates balance (Timestamp as_of))))"
    by (simp del: first_present.simps)
  with assms(3) ne vd show ?thesis by simp
qed

lemma valid_dates_empty_iff:
  "valid_dates balance t = [] \<longleftrightarrow> (\<forall>d \<in> set (b_columns balance). t < d)"
  unfolding valid_dates_def filter_empty_conv by (rule ball_cong [OF refl]) (rule not_le)

lemma Max_valid_dates_greatest:
  assumes "d \<in> set (b_columns balance)" and "d \<le> t"
  shows "d \<le> Max (set (valid_dates balance t))"
proof -
  from assms have "d \<in> set (valid_dates balance t)"
    by (simp add: valid_dates_def)
  then show ?thesis by (intro Max_ge) simp_all
qed

lemma first_present_shares:
  "first_present [''Ordinary Shares Number'', ''Share Issued''] balance latest None =
     (if ''Ordinary Shares Number'' \<in> set (b_index balance)
        then Some (b_cell balance ''Ordinary Shares Number'' latest)
      else if ''Share Issued'' \<in> set (b_index balance)
        then Some (b_cell balance ''Share Issued'' latest)
      else None)"
  by simp

lemma first_present_debt:
  "first_present [''Total Debt'', ''Long Term Debt'', ''Current Debt''] balance latest None =
     (if ''Total Debt'' \<in> set (b_index balance)
        then Some (b_cell balance ''Total Debt'' latest)
      else if ''Long Term Debt'' \<in> set (b_index balance)
        then Some (b_cell balance ''Long Term Debt'' latest)
      else if ''Current Debt'' \<in> set (b_index balance)
        then Some (b_cell balance ''Current Debt'' latest)
      else None)"
  by simp

lemma first_present_outside_equity:
  "first_present [''Preferred Securities Outside Stock Equity''] balance latest (Some 0) =
     (if ''Preferred Securities Outside Stock Equity'' \<in> set (b_index balance)
        then Some (b_cell balance ''Preferred Securities Outside Stock Equity'' latest)
      else Some 0)"
  by simp

text \<open>
  Claim C3, as amended.  For a balance sheet that the provider returns: the report date of
  the result is always one of the frame's dates and never later than the as-of date.  All
  four fields are absent when every date of the frame is later than the as-of date (no
  date on or before it), and also when the frame is empty, that is, has no line item or no
  date.  When the frame has a line item and some date is on or before the as-of date,
  the result is the snapshot at the greatest such date: that date is its report date, and
  the three figures are read from the cells of that date.
\<close>

theorem get_fundamentals_asof_no_look_ahead:
  assumes "quarterly_balance_sheet P ticker = Inr balance"
  shows "\<exists>f. get_fundamentals_asof P ticker as_of True = Inr f \<and>
     (\<forall>d. report_date f = Some d \<longrightarrow> d \<in> set (b_columns balance) \<and> d \<le> Timestamp as_of) \<and>
     ((\<forall>d \<in> set (b_columns balance). Timestamp as_of < d) \<longrightarrow>
        f = \<lparr>shares_outstanding = None, total_debt = None, outside_equity = None,
             report_date = None\<rparr>) \<and>
     (b_index balance = [] \<or> b_columns balance = [] \<longrightarrow>
        f = \<lparr>shares_outstanding = None, total_debt = None, outside_equity = None,
             report_date = None\<rparr>) \<and>
     (b_index balance \<noteq> [] \<and> (\<exists>d \<in> set (b_columns balance). d \<le> Timestamp as_of) \<longrightarrow>
        (\<exists>latest. latest \<in> set (b_columns balance) \<and> latest \<le> Timestamp as_of \<and>
           (\<forall>d \<in> set (b_columns balance). d \<le> Timestamp as_of \<longrightarrow> d \<le> latest) \<and>
           f = \<lparr>shares_outstanding =
                  (if ''Ordinary Shares Number'' \<in> set (b_index balance)
                     then Some (b_cell balance ''Ordinary Shares Number'' latest)
                   else if ''Share Issued'' \<in> set (b_index balance)
                     then Some (b_cell balance ''Share Issued'' latest)
                   else None),
                total_debt =
                  (if ''Total Debt'' \<in> set (b_index balance)
                     then Some (b_cell balance ''Total Debt'' latest)
                   else if ''Long Term Debt'' \<in> set (b_index balance)
                     then Some (b_cell balance ''Long Term Debt'' latest)
                   else if ''Current Debt'' \<in> set (b_index balance)
                     then Some (b_cell balance ''Current Debt'' latest)
                   else None),
                outside_equity =
                  (if ''Preferred Securities Outside Stock Equity'' \<in> set (b_index balance)
                     then Some (b_cell balance ''Preferred Securities Outside Stock Equity'' latest)
                   else Some 0),
                report_date = Some latest\<rparr>))"
proof (cases "empty_frame balance \<or> valid_dates balance (Timestamp as_of) = []")
  case True
  let ?absent = "\<lparr>shares_outstanding = None, total_debt = None, outside_equity = None,
      report_date = None\<rparr>"
  have g: "get_fundamentals_asof P ticker as_of True = Inr ?absent"
    using fundamentals_none [OF assms True] unfolding no_fundamentals_def .
  have 1: "\<forall>d. report_date ?absent = Some d \<longrightarrow>
      d \<in> set (b_columns balance) \<and> d \<le> Timestamp as_of"
    by simp
  have 4: "\<not> (b_index balance \<noteq> [] \<and> (\<exists>d \<in> set (b_columns balance). d \<le> Timestamp as_of))"
  proof
    assume h: "b_index balance \<noteq> [] \<and> (\<exists>d \<in> set (b_columns balance). d \<le> Timestamp as_of)"
    then obtain d where d: "d \<in> set (b_columns balance)" and le: "d \<le> Timestamp as_of"
      by (elim conjE bexE)
    from d have c: "b_columns balance \<noteq> []" by (cases "b_columns balance") simp_all
    from h c have ne: "\<not> empty_frame balance" by (simp add: empty_frame_def)
    from d le have "\<not> (\<forall>d \<in> set (b_columns balance). Timestamp as_of < d)"
      by (intro notI) (simp add: Ball_def not_less [symmetric])
    then have "valid_dates balance (Timestamp as_of) \<noteq> []"
      unfolding valid_dates_empty_iff .
    with ne True show False by simp
  qed
  show ?thesis
    using g 1 4 by (intro exI [of _ ?absent] conjI impI) simp_all
next
  case False
  then have ne: "\<not> empty_frame balance" and vd: "valid_dates balance (Timestamp as_of) \<noteq> []"
    by simp_all
  let ?latest = "Max (set (valid_dates balance (Timestamp as_of)))"
  let ?f = "\<lparr>shares_outstanding =
                  (if ''Ordinary Shares Number'' \<in> set (b_index balance)
                     then Some (b_cell balance ''Ordinary Shares Number'' ?latest)
                   else if ''Share Issued'' \<in> set (b_index balance)
                     then Some (b_cell balance ''Share Issued'' ?latest)
                   else None),
                total_debt =
                  (if ''Total Debt'' \<in> set (b_index balance)
                     then Some (b_cell balance ''Total Debt'' ?latest)
                   else if ''Long Term Debt'' \<in> set (b_index balance)
                     then Some (b_cell balance ''Long Term Debt'' ?latest)
                   else if ''Current Debt'' \<in> set (b_index balance)
                     then Some (b_cell balance ''Current Debt'' ?latest)
                   else None),
                outside_equity =
                  (if ''Preferred Securities Outside Stock Equity'' \<in> set (b_index balance)
                     then Some (b_cell balance ''Preferred Securities Outside Stock Equity'' ?latest)
                   else Some 0),
                report_date = Some ?latest\<rparr>"
  have g: "get_fundamentals_asof P ticker as_of True = Inr ?f"
    using fundamentals_selected [OF assms ne vd]
    unfolding first_present_shares first_present_debt first_present_outside_equity .
  note mx = Max_valid_dates [OF vd]
  from mx have m1: "?latest \<in> set (b_columns balance)" and m2: "?latest \<le> Timestamp as_of"
    by (rule conjunct1, rule conjunct2)
  have m3: "\<forall>d \<in> set (b_columns balance). d \<le> Timestamp as_of \<longrightarrow> d \<le> ?latest"
    by (intro ballI impI) (rule Max_valid_dates_greatest)
  have 1: "\<forall>d. report_date ?f = Some d \<longrightarrow>
      d \<in> set (b_columns balance) \<and> d \<le> Timestamp as_of"
    using m1 m2 by simp
  have 2: "\<not> (\<forall>d \<in> set (b_columns balance). Timestamp as_of < d)"
    using vd unfolding valid_dates_empty_iff .
  have 3: "\<not> (b_index balance = [] \<or> b_columns balance = [])"
    using ne unfolding empty_frame_def .
  have 5: "\<exists>latest. latest \<in> set (b_columns balance) \<and> latest \<le> Timestamp as_of \<and>
           (\<forall>d \<in> set (b_columns balance). d \<le> Timestamp as_of \<longrightarrow> d \<le> latest) \<and>
           ?f = \<lparr>shares_outstanding =
                  (if ''Ordinary Shares Number'' \<in> set (b_index balance)
                     then Some (b_cell balance ''Ordinary Shares Number'' latest)
                   else if ''Share Issued'' \<in> set (b_index balance)
                     then Some (b_cell balance ''Share Issued'' latest)
                   else None),
                total_debt =
                  (if ''Total Debt'' \<in> set (b_index balance)
                     then Some (b_cell balance ''Total Debt'' latest)
                   else if ''Long Term Debt'' \<in> set (b_index balance)
                     then Some (b_cell balance ''Long Term Debt'' latest)
                   else if ''Current Debt'' \<in> set (b_index balance)
                     then Some (b_cell balance ''Current Debt'' latest)
                   else None),
                outside_equity =
                  (if ''Preferred Securities Outside Stock Equity'' \<in> set (b_index balance)
                     then Some (b_cell balance ''Preferred Securities Outside Stock Equity'' latest)
                   else Some 0),
                report_date = Some latest\<rparr>"
    using m1 m2 m3 by (intro exI [of _ ?latest] conjI refl)
  have c2: "(\<forall>d \<in> set (b_columns balance). Timestamp as_of < d) \<longrightarrow>
        ?f = \<lparr>shares_outstanding = None, total_debt = None, outside_equity = None,
             report_date = None\<rparr>"
    using 2 by (intro impI) (erule notE)
  have c3: "b_index balance = [] \<or> b_columns balance = [] \<longrightarrow>
        ?f = \<lparr>shares_outstanding = None, total_debt = None, outside_equity = None,
             report_date = None\<rparr>"
    using 3 by (intro impI) (erule notE)
  have c5: "b_index balance \<noteq> [] \<and> (\<exists>d \<in> set (b_columns balance). d \<le> Timestamp as_of) \<longrightarrow>
        (\<exists>latest. latest \<in> set (b_columns balance) \<and> latest \<le> Timestamp as_of \<and>
           (\<forall>d \<in> set (b_columns balance). d \<le> Timestamp as_of \<longrightarrow> d \<le> latest) \<and>
           ?f = \<lparr>shares_outstanding =
                  (if ''Ordinary Shares Number'' \<in> set (b_index balance)
                     then Some (b_cell balance ''Ordinary Shares Number'' latest)
                   else if ''Share Issued'' \<in> set (b_index balance)
                     then Some (b_cell balance ''Share Issued'' latest)
                   else None),
                total_debt =
                  (if ''Total Debt'' \<in> set (b_index balance)
                     then Some (b_cell balance ''Total Debt'' latest)
                   else if ''Long Term Debt'' \<in> set (b_index balance)
                     then Some (b_cell balance ''Long Term Debt'' latest)
                   else if ''Current Debt'' \<in> set (b_index balance)
                     then Some (b_cell balance ''Current Debt'' latest)
                   else None),
                outside_equity =
                  (if ''Preferred Securities Outside Stock Equity'' \<in> set (b_index balance)
                     then Some (b_cell balance ''Preferred Securities Outside Stock Equity'' latest)
                   else Some 0),
                report_date = Some latest\<rparr>)"
    using 5 by (rule impI)
  from g 1 c2 c3 c5 show ?thesis
    by (intro exI [of _ ?f] conjI)
qed

theorem rowless_report_not_selected:
  "quarterly_balance_sheet rowless_provider ''PDI'' = Inr rowless_balance \<and>
   valid_dates rowless_balance (Timestamp 19723) = [Timestamp 19722] \<and>
   get_fundamentals_asof rowless_provider ''PDI'' 19723 True =
     Inr \<lparr>shares_outstanding = None, total_debt = None, outside_equity = None, report_date = None\<rparr>"
  by (simp add: rowless_provider_def rowless_balance_def valid_dates_def get_fundamentals_asof_def
      empty_frame_def no_fundamentals_def Timestamp_def ns_per_day_def)

theorem get_fundamentals_asof_no_look_ahead_witness:
  "(\<exists>f. get_fundamentals_asof sample_provider ''PDI'' 19723 True = Inr f \<and>
      report_date f = Some (Timestamp 19722) \<and> shares_outstanding f = Some 12345678) \<and>
   get_fundamentals_asof sample_provider ''PDI'' 19000 True =
     Inr \<lparr>shares_outstanding = None, total_debt = None, outside_equity = None, report_date = None\<rparr> \<and>
   get_fundamentals_asof rowless_provider ''PDI'' 19723 True =
     Inr \<lparr>shares_outstanding = None, total_debt = None, outside_equity = None, report_date = None\<rparr>"
proof -
  have q: "quarterly_balance_sheet sample_provider ''PDI'' = Inr sample_balance"
    by (simp add: sample_provider_def)
  have cols: "b_columns sample_balance = [Timestamp 19813, Timestamp 19722, Timestamp 19630]"
    and ix: "b_index sample_balance \<noteq> []"
    and osn: "''Ordinary Shares Number'' \<in> set (b_index sample_balance)"
    and cell: "b_cell sample_balance ''Ordinary Shares Number'' (Timestamp 19722) = 12345678"
    by (simp_all add: sample_balance_def)
  have ts: "Timestamp 19630 < Timestamp 19722" "Timestamp 19722 < Timestamp 19723"
    "Timestamp 19723 < Timestamp 19813" "Timestamp 19000 < Timestamp 19630"
    by (simp_all add: Timestamp_def ns_per_day_def)
  \<comment> \<open>a report is selected: the latest date on or before day 19723\<close>
  from get_fundamentals_asof_no_look_ahead [OF q, of 19723]
  obtain f where f: "get_fundamentals_asof sample_provider ''PDI'' 19723 True = Inr f"
    and s: "b_index sample_balance \<noteq> [] \<and>
        (\<exists>d \<in> set (b_columns sample_balance). d \<le> Timestamp 19723) \<longrightarrow>
        (\<exists>latest. latest \<in> set (b_columns sample_balance) \<and> latest \<le> Timestamp 19723 \<and>
           (\<forall>d \<in> set (b_columns sample_balance). d \<le> Timestamp 19723 \<longrightarrow> d \<le> latest) \<and>
           f = \<lparr>shares_outstanding =
                  (if ''Ordinary Shares Number'' \<in> set (b_index sample_balance)
                     then Some (b_cell sample_balance ''Ordinary Shares Number'' latest)
                   else if ''Share Issued'' \<in> set (b_index sample_balance)
                     then Some (b_cell sample_balance ''Share Issued'' latest)
                   else None),
                total_debt =
                  (if ''Total Debt'' \<in> set (b_index sample_balance)
                     then Some (b_cell sample_balance ''Total Debt'' latest)
                   else if ''Long Term Debt'' \<in> set (b_index sample_balance)
                     then Some (b_cell sample_balance ''Long Term Debt'' latest)
                   else if ''Current Debt'' \<in> set (b_index sample_balance)
                     then Some (b_cell sample_balance ''Current Debt'' latest)
                   else None),
                outside_equity =
                  (if ''Preferred Securities Outside Stock Equity'' \<in> set (b_index sample_balance)
                     then Some (b_cell sample_balance ''Preferred Securities Outside Stock Equity'' latest)
                   else Some 0),
                report_date = Some latest\<rparr>)"
    by (elim exE conjE)
  have "b_index sample_balance \<noteq> [] \<and>
      (\<exists>d \<in> set (b_columns sample_balance). d \<le> Timestamp 19723)"
    using ix ts unfolding cols by simp
  from s [THEN mp, OF this]
  obtain latest where l1: "latest \<in> set (b_columns sample_balance)"
    and l2: "latest \<le> Timestamp 19723"
    and l3: "\<forall>d \<in> set (b_columns sample_balance). d \<le> Timestamp 19723 \<longrightarrow> d \<le> latest"
    and rd: "report_date f = Some latest"
    and sh: "shares_outstanding f =
        (if ''Ordinary Shares Number'' \<in> set (b_index sample_balance)
           then Some (b_cell sample_balance ''Ordinary Shares Number'' latest)
         else if ''Share Issued'' \<in> set (b_index sample_balance)
           then Some (b_cell sample_balance ''Share Issued'' latest)
         else None)"
    by (elim exE conjE) simp
  from l3 ts have "Timestamp 19722 \<le> latest"
    unfolding cols by simp
  moreover from l1 l2 ts have "latest = Timestamp 19722 \<or> latest = Timestamp 19630"
    unfolding cols by auto
  ultimately have l: "latest = Timestamp 19722"
    using ts by auto
  from rd sh have "report_date f = Some (Timestamp 19722)"
    and "shares_outstanding f = Some 12345678"
    unfolding l by (simp_all add: osn cell)
  with f have 1: "\<exists>f. get_fundamentals_asof sample_provider ''PDI'' 19723 True = Inr f \<and>
      report_date f = Some (Timestamp 19722) \<and> shares_outstanding f = Some 12345678"
    by (intro exI [of _ f] conjI)
  \<comment> \<open>every report is dated after day 19000\<close>
  from get_fundamentals_asof_no_look_ahead [OF q, of 19000]
  obtain f0 where f0: "get_fundamentals_asof sample_provider ''PDI'' 19000 True = Inr f0"
    and a0: "(\<forall>d \<in> set (b_columns sample_balance). Timestamp 19000 < d) \<longrightarrow>
        f0 = \<lparr>shares_outstanding = None, total_debt = None, outside_equity = None,
             report_date = None\<rparr>"
    by (elim exE conjE)
  have "\<forall>d \<in> set (b_columns sample_balance). Timestamp 19000 < d"
    using ts unfolding cols by simp
  from a0 [THEN mp, OF this] f0
  have 2: "get_fundamentals_asof sample_provider ''PDI'' 19000 True =
     Inr \<lparr>shares_outstanding = None, total_debt = None, outside_equity = None, report_date = None\<rparr>"
    by simp
  \<comment> \<open>a frame with a date and no line item\<close>
  have q': "quarterly_balance_sheet rowless_provider ''PDI'' = Inr rowless_balance"
    by (simp add: rowless_provider_def)
  from get_fundamentals_asof_no_look_ahead [OF q', of 19723]
  obtain f1 where f1: "get_fundamentals_asof rowless_provider ''PDI'' 19723 True = Inr f1"
    and a1: "b_index rowless_balance = [] \<or> b_columns rowless_balance = [] \<longrightarrow>
        f1 = \<lparr>shares_outstanding = None, total_debt = None, outside_equity = None,
             report_date = None\<rparr>"
    by (elim exE conjE)
  have "b_index rowless_balance = [] \<or> b_columns rowless_balance = []"
    by (simp add: rowless_balance_def)
  from a1 [THEN mp, OF this] f1
  have 3: "get_fundamentals_asof rowless_provider ''PDI'' 19723 True =
     Inr \<lparr>shares_outstanding = None, total_debt = None, outside_equity = None, report_date = None\<rparr>"
    by simp
  from 1 2 3 show ?thesis by (intro conjI)
qed

text \<open>
  Claim C6, as amended.  For a frame that is not empty and has a date on or before the as-of
  date: when the index lacks "Preferred Securities Outside Stock Equity" the outside
  equity is 0, not absent; when it lacks both share line items the shares are absent; when
  it lacks all three debt line items the debt is absent.
\<close>

theorem missing_line_items:
  assumes "quarterly_balance_sheet P ticker = Inr balance"
    and "\<not> empty_frame balance"
    and "valid_dates balance (Timestamp as_of) \<noteq> []"
  shows "\<exists>f. get_fundamentals_asof P ticker as_of True = Inr f \<and>
     (''Preferred Securities Outside Stock Equity'' \<notin> set (b_index balance) \<longrightarrow>
        outside_equity f = Some 0) \<and>
     (''Ordinary Shares Number'' \<notin> set (b_index balance) \<and>
      ''Share Issued'' \<notin> set (b_index balance) \<longrightarrow> shares_outstanding f = None) \<and>
     (''Total Debt'' \<notin> set (b_index balance) \<and> ''Long Term Debt'' \<notin> set (b_index balance) \<and>
      ''Current Debt'' \<notin> set (b_index balance) \<longrightarrow> total_debt f = None)"
  unfolding fundamentals_selected [OF assms] by simp

theorem rowless_outside_equity_absent:
  "''Preferred Securities Outside Stock Equity'' \<notin> set (b_index rowless_balance) \<and>
   Timestamp 19722 \<in> set (b_columns rowless_balance) \<and> Timestamp 19722 \<le> Timestamp 19723 \<and>
   get_fundamentals_asof rowless_provider ''PDI'' 19723 True =
     Inr \<lparr>shares_outstanding = None, total_debt = None, outside_equity = None, report_date = None\<rparr>"
  by (simp add: rowless_provider_def rowless_balance_def get_fundamentals_asof_def
      empty_frame_def no_fundamentals_def Timestamp_def ns_per_day_def)

theorem missing_line_items_witness:
  "\<exists>f. get_fundamentals_asof sparse_provider ''PDI'' 19723 True = Inr f \<and>
     outside_equity f = Some 0 \<and> shares_outstanding f = None \<and> total_debt f = None"
proof -
  have q: "quarterly_balance_sheet sparse_provider ''PDI'' = Inr sparse_balance"
    by (simp add: sparse_provider_def)
  have ne: "\<not> empty_frame sparse_balance"
    by (simp add: empty_frame_def sparse_balance_def)
  have vd: "valid_dates sparse_balance (Timestamp 19723) \<noteq> []"
    by (simp add: valid_dates_def sparse_balance_def Timestamp_def ns_per_day_def)
  have ix: "b_index sparse_balance = [''Cash And Cash Equivalents'']"
    by (simp add: sparse_balance_def)
  from missing_line_items [OF q ne vd] show ?thesis
    unfolding ix by simp
qed

text \<open>
  Claim C7.  Whenever a report is selected, the shares are read from "Ordinary Shares Number"
  if the index has it, whether or not it also has "Share Issued", and from "Share Issued"
  only otherwise; the debt is read from "Total Debt", else from "Long Term Debt", else from
  "Current Debt".  Each value is the cell of that line item at the selected date.
\<close>

theorem line_item_priority:
  assumes "quarterly_balance_sheet P ticker = Inr balance"
    and "get_fundamentals_asof P ticker as_of True = Inr f"
    and "report_date f = Some latest"
  shows "shares_outstanding f =
      (if ''Ordinary Shares Number'' \<in> set (b_index balance)
         then Some (b_cell balance ''Ordinary Shares Number'' latest)
       else if ''Share Issued'' \<in> set (b_index balance)
         then Some (b_cell balance ''Share Issued'' latest)
       else None) \<and>
    total_debt f =
      (if ''Total Debt'' \<in> set (b_index balance)
         then Some (b_cell balance ''Total Debt'' latest)
       else if ''Long Term Debt'' \<in> set (b_index balance)
         then Some (b_cell balance ''Long Term Debt'' latest)
       else if ''Current Debt'' \<in> set (b_index balance)
         then Some (b_cell balance ''Current Debt'' latest)
       else None)"
proof -
  from fundamentals_report_date [OF assms]
  have ne: "\<not> empty_frame balance" and vd: "valid_dates balance (Timestamp as_of) \<noteq> []"
    and l: "latest = Max (set (valid_dates balance (Timestamp as_of)))"
    by simp_all
  from fundamentals_selected [OF assms(1) ne vd] assms(2)
  have "f = \<lparr>shares_outstanding =
            first_present [''Ordinary Shares Number'', ''Share Issued''] balance latest None,
          total_debt =
            first_present [''Total Debt'', ''Long Term Debt'', ''Current Debt''] balance latest None,
          outside_equity =
            first_present [''Preferred Securities Outside Stock Equity''] balance latest (Some 0),
          report_date = Some latest\<rparr>"
    unfolding l by (simp del: first_present.simps)
  then have s: "shares_outstanding f =
        first_present [''Ordinary Shares Number'', ''Share Issued''] balance latest None"
    and d: "total_debt f =
        first_present [''Total Debt'', ''Long Term Debt'', ''Current Debt''] balance latest None"
    by (simp_all del: first_present.simps)
  show ?thesis unfolding s d by simp
qed

theorem line_item_priority_witness:
  "''Ordinary Shares Number'' \<in> set (b_index sample_balance) \<and>
   ''Share Issued'' \<in> set (b_index sample_balance) \<and>
   get_fundamentals_asof sample_provider ''PDI'' 19723 True =
     Inr \<lparr>shares_outstanding = Some 12345678, total_debt = Some 250000000,
          outside_equity = Some 5000000, report_date = Some (Timestamp 19722)\<rparr>"
proof -
  have q: "quarterly_balance_sheet sample_provider ''PDI'' = Inr sample_balance"
    by (simp add: sample_provider_def)
  have g: "get_fundamentals_asof sample_provider ''PDI'' 19723 True =
     Inr \<lparr>shares_outstanding = Some 12345678, total_debt = Some 250000000,
          outside_equity = Some 5000000, report_date = Some (Timestamp 19722)\<rparr>"
    by (simp add: get_fundamentals_asof_def sample_provider_def sample_balance_def
        empty_frame_def valid_dates_def Timestamp_def ns_per_day_def)
  have i: "''Ordinary Shares Number'' \<in> set (b_index sample_balance) \<and>
      ''Share Issued'' \<in> set (b_index sample_balance)"
    by (simp add: sample_balance_def)
  from line_item_priority [OF q g, of "Timestamp 19722"]
  have "Some (12345678::real) = Some (b_cell sample_balance ''Ordinary Shares Number'' (Timestamp 19722))"
    using i by simp
  with g i show ?thesis by simp
qed

text \<open>
  Claim C1 (the code does not do this).  \<^const>\<open>get_fundamentals_asof\<close> has no handler: an
  exception of the provider's balance-sheet call leaves the function as it is, and the
  loop has no handler either, so the run ends with that exception and no report.
\<close>

theorem fundamentals_fault_propagates:
  assumes "quarterly_balance_sheet P fund = Inl e" and "info P fund = Inr i"
  shows "get_fundamentals_asof P fund target_date True = Inl e \<and>
         batch_loop round_2dp P target_date rows ((fund, nav, types, subcategories, broadcats, regions) # es) = Inl e"
  using assms by (simp add: get_fundamentals_asof_def loop_body_def)

theorem fundamentals_fault_propagates_witness:
  "get_fundamentals_asof faulty_provider ''PDI'' 19723 True = Inl NetworkError \<and>
   build_report half_even_hundredths faulty_provider sample_table 19723 = Inl NetworkError"
proof -
  have q: "quarterly_balance_sheet faulty_provider ''PDI'' = Inl NetworkError"
    by (simp add: faulty_provider_def)
  have i: "info faulty_provider ''PDI'' = Inr [''longName'' \<mapsto> ''PIMCO Dynamic Income Fund'']"
    by (simp add: faulty_provider_def sample_provider_def)
  have e: "entries (dropna sample_table) = [(''PDI'', ''XPDIX'', Some ''CEF'', Some ''Multisector'', Some ''Fixed Income'', None)]"
    by (simp add: sample_table_def dropna_def entries_def)
  from fundamentals_fault_propagates [OF q i, of 19723 half_even_hundredths "[]" "''XPDIX''" "Some ''CEF''" "Some ''Multisector''"
      "Some ''Fixed Income''" None "[]"]
  show ?thesis unfolding build_report_def e by simp
qed

section \<open>One row of the report\<close>

lemma loop_body_row:
  assumes "loop_body round_2dp P d (fund, nav, types, subcategories, broadcats, regions) = Inr row"
  shows "\<exists>i fnd fund_price nav_price.
     info P fund = Inr i \<and>
     get_fundamentals_asof P fund d True = Inr fnd \<and>
     get_close_price P fund d (start_date d) (end_date d) = Inr fund_price \<and>
     get_close_price P nav d (start_date d) (end_date d) = Inr nav_price \<and>
     row = \<lparr>Fund_Name = (case i ''longName'' of None \<Rightarrow> fund | Some n \<Rightarrow> n),
            Broad_Category_col = broadcats, Fund_Type_col = types,
            Subcategory_col = subcategories, Geographic_Focus_col = regions,
            Date = d, Fund_Ticker = fund, Fund_Close_Price = fund_price,
            NAV_Ticker = nav, NAV_Close_Price = nav_price,
            Discount = discount fund_price nav_price,
            Shares_Outstanding_M = millions round_2dp (shares_outstanding fnd),
            Total_Debt_M = millions round_2dp (total_debt fnd)\<rparr>"
  using assms unfolding loop_body_def
  by (simp split: sum.splits)

lemma discount_cases:
  "discount fp np =
     (case fp of None \<Rightarrow> None
      | Some f \<Rightarrow> (case np of None \<Rightarrow> None
                   | Some n \<Rightarrow> if f \<noteq> 0 \<and> n \<noteq> 0 then Some (f / n) else None))"
  by (simp add: discount_def truthy_def split: option.splits)




lemmas eval_simps =
  loop_body_def get_fundamentals_asof_def empty_frame_def valid_dates_def Timestamp_def
  ns_per_day_def get_close_price_def get_close_price_try_def index_strftime_def
  strftime_Ymd_def loc_Close_def start_date_def end_date_def discount_def truthy_def
  millions_def half_even_hundredths_def round_half_even_def Let_def no_fundamentals_def

lemma sample_row:
  "loop_body half_even_hundredths sample_provider 19723 sample_entry =
     Inr \<lparr>Fund_Name = ''PIMCO Dynamic Income Fund'',
          Broad_Category_col = Some ''Fixed Income'', Fund_Type_col = Some ''CEF'',
          Subcategory_col = Some ''Multisector'', Geographic_Focus_col = None,
          Date = 19723, Fund_Ticker = ''PDI'', Fund_Close_Price = Some 9.5,
          NAV_Ticker = ''XPDIX'', NAV_Close_Price = Some 10,
          Discount = Some 0.95,
          Shares_Outstanding_M = Some 12.35,
          Total_Debt_M = Some 250\<rparr>"
  by (simp add: eval_simps sample_entry_def sample_provider_def sample_balance_def
      sample_bars_def sample_nav_bars_def)

text \<open>
  Claim C4, as amended.  The discount of a row is a function of its two close prices alone:
  it is present exactly when both prices are present and neither is 0, and it is then the
  fund price divided by the NAV price; it is absent when either price is absent.  The two
  prices are what \<^const>\<open>get_close_price\<close> returns for the row's two tickers.  A run
  against a provider with the same price history and any other balance sheets gives the
  same discount.
\<close>

theorem discount_from_prices:
  assumes "loop_body round_2dp P target_date e = Inr row"
  shows "get_close_price P (Fund_Ticker row) target_date (start_date target_date) (end_date target_date)
           = Inr (Fund_Close_Price row) \<and>
         get_close_price P (NAV_Ticker row) target_date (start_date target_date) (end_date target_date)
           = Inr (NAV_Close_Price row) \<and>
         (Discount row \<noteq> None \<longleftrightarrow>
            (\<exists>f n. Fund_Close_Price row = Some f \<and> NAV_Close_Price row = Some n \<and> f \<noteq> 0 \<and> n \<noteq> 0)) \<and>
         (\<forall>f n. Fund_Close_Price row = Some f \<and> NAV_Close_Price row = Some n \<and> f \<noteq> 0 \<and> n \<noteq> 0 \<longrightarrow>
            Discount row = Some (f / n)) \<and>
         (Fund_Close_Price row = None \<or> NAV_Close_Price row = None \<longrightarrow> Discount row = None) \<and>
         (\<forall>P' row'. history P' = history P \<and> loop_body round_2dp P' target_date e = Inr row' \<longrightarrow>
            Discount row' = Discount row)"
proof -
  obtain fund nav types subcategories broadcats regions
    where e: "e = (fund, nav, types, subcategories, broadcats, regions)"
    by (cases e) blast
  from loop_body_row [OF assms [unfolded e]]
  obtain fp np where fp: "get_close_price P fund target_date (start_date target_date) (end_date target_date) = Inr fp"
    and np: "get_close_price P nav target_date (start_date target_date) (end_date target_date) = Inr np"
    and t: "Fund_Ticker row = fund" "NAV_Ticker row = nav"
    and p: "Fund_Close_Price row = fp" "NAV_Close_Price row = np"
    and d: "Discount row = discount fp np"
    by force
  have 1: "get_close_price P (Fund_Ticker row) target_date (start_date target_date) (end_date target_date)
           = Inr (Fund_Close_Price row)"
    using fp t p by simp
  have 2: "get_close_price P (NAV_Ticker row) target_date (start_date target_date) (end_date target_date)
           = Inr (NAV_Close_Price row)"
    using np t p by simp
  have 3: "Discount row \<noteq> None \<longleftrightarrow>
            (\<exists>f n. Fund_Close_Price row = Some f \<and> NAV_Close_Price row = Some n \<and> f \<noteq> 0 \<and> n \<noteq> 0)"
    unfolding d p discount_cases by (simp split: option.splits)
  have 4: "\<forall>f n. Fund_Close_Price row = Some f \<and> NAV_Close_Price row = Some n \<and> f \<noteq> 0 \<and> n \<noteq> 0 \<longrightarrow>
            Discount row = Some (f / n)"
    unfolding d p discount_cases by simp
  have 5: "Fund_Close_Price row = None \<or> NAV_Close_Price row = None \<longrightarrow> Discount row = None"
    unfolding d p discount_cases by (simp split: option.splits)
  have 6: "\<forall>P' row'. history P' = history P \<and> loop_body round_2dp P' target_date e = Inr row' \<longrightarrow>
            Discount row' = Discount row"
  proof (intro allI impI)
    fix P' row'
    assume a: "history P' = history P \<and> loop_body round_2dp P' target_date e = Inr row'"
    then have h: "history P' = history P" and l: "loop_body round_2dp P' target_date e = Inr row'"
      by simp_all
    have g: "get_close_price P' t target_date s u = get_close_price P t target_date s u" for t s u
      by (simp add: get_close_price_def get_close_price_try_def h)
    from loop_body_row [OF l [unfolded e]]
    obtain fp' np' where "get_close_price P' fund target_date (start_date target_date) (end_date target_date) = Inr fp'"
      and "get_close_price P' nav target_date (start_date target_date) (end_date target_date) = Inr np'"
      and "Discount row' = discount fp' np'"
      by force
    with fp np d show "Discount row' = Discount row"
      unfolding g by simp
  qed
  from 1 2 3 4 5 6 show ?thesis by blast
qed

theorem zero_price_no_discount:
  "loop_body half_even_hundredths zero_price_provider 19723 sample_entry =
     Inr \<lparr>Fund_Name = ''PIMCO Dynamic Income Fund'',
          Broad_Category_col = Some ''Fixed Income'', Fund_Type_col = Some ''CEF'',
          Subcategory_col = Some ''Multisector'', Geographic_Focus_col = None,
          Date = 19723, Fund_Ticker = ''PDI'', Fund_Close_Price = Some 0,
          NAV_Ticker = ''XPDIX'', NAV_Close_Price = Some 10,
          Discount = None,
          Shares_Outstanding_M = Some 12.35,
          Total_Debt_M = Some 250\<rparr>"
  by (simp add: eval_simps sample_entry_def zero_price_provider_def sample_provider_def
      sample_balance_def sample_nav_bars_def)

theorem discount_from_prices_witness:
  "\<exists>row. loop_body half_even_hundredths sample_provider 19723 sample_entry = Inr row \<and>
     Fund_Close_Price row = Some 9.5 \<and> NAV_Close_Price row = Some 10 \<and> Discount row = Some 0.95"
proof -
  let ?row = "\<lparr>Fund_Name = ''PIMCO Dynamic Income Fund'',
          Broad_Category_col = Some ''Fixed Income'', Fund_Type_col = Some ''CEF'',
          Subcategory_col = Some ''Multisector'', Geographic_Focus_col = None,
          Date = 19723, Fund_Ticker = ''PDI'', Fund_Close_Price = Some 9.5,
          NAV_Ticker = ''XPDIX'', NAV_Close_Price = Some 10,
          Discount = Some 0.95,
          Shares_Outstanding_M = Some 12.35,
          Total_Debt_M = Some 250\<rparr>"
  from discount_from_prices [OF sample_row]
  have "\<forall>f n. Fund_Close_Price ?row = Some f \<and> NAV_Close_Price ?row = Some n \<and> f \<noteq> 0 \<and> n \<noteq> 0 \<longrightarrow>
            Discount ?row = Some (f / n)"
    by blast
  then have "Discount ?row = Some (9.5 / 10)"
    by simp
  with sample_row show ?thesis by simp
qed






section \<open>The whole report\<close>

lemma entries_dropna_Cons:
  "entries (dropna (t # df)) =
     (case Fund t of None \<Rightarrow> entries (dropna df)
      | Some f \<Rightarrow> (case NAV t of None \<Rightarrow> entries (dropna df)
          | Some n \<Rightarrow> (f, n, Fund_Type t, Subcategory t, Broad_Category t, Geographic_Focus t)
                        # entries (dropna df)))"
  by (simp add: entries_def dropna_def split: option.splits)

lemma entries_dropna_Nil: "entries (dropna []) = []"
  by (simp add: entries_def dropna_def)

lemma entries_dropna_columns:
  "map (\<lambda>(f, n, rest). (Some f, Some n, rest)) (entries (dropna df)) =
   map (\<lambda>t. (Fund t, NAV t, Fund_Type t, Subcategory t, Broad_Category t, Geographic_Focus t))
     (filter (\<lambda>t. Fund t \<noteq> None \<and> NAV t \<noteq> None) df)"
proof (induction df)
  case Nil
  show ?case by (simp add: entries_dropna_Nil)
next
  case (Cons t df)
  show ?case
    unfolding entries_dropna_Cons using Cons.IH
    by (simp split: option.splits)
qed

lemma loop_body_entry:
  assumes "loop_body round_2dp P d e = Inr r"
  shows "row_entry r = e"
proof -
  obtain fund nav types subcategories broadcats regions
    where e: "e = (fund, nav, types, subcategories, broadcats, regions)"
    by (cases e) blast
  from loop_body_row [OF assms [unfolded e]] show ?thesis
    unfolding e row_entry_def by force
qed

lemma batch_loop_rows:
  assumes "batch_loop round_2dp P d acc es = Inr rows"
  shows "\<exists>new. rows = acc @ new \<and> map row_entry new = es"
  using assms
proof (induction es arbitrary: acc)
  case Nil
  then show ?case by simp
next
  case (Cons e es)
  show ?case
  proof (cases "loop_body round_2dp P d e")
    case (Inl x)
    with Cons.prems show ?thesis by simp
  next
    case (Inr row)
    with Cons.prems have b: "batch_loop round_2dp P d (acc @ [row]) es = Inr rows" by simp
    from Cons.IH [OF b] obtain new where n: "rows = (acc @ [row]) @ new"
      and m: "map row_entry new = es"
      by blast
    have k: "row_entry row = e" by (rule loop_body_entry [OF Inr])
    have 1: "rows = acc @ (row # new)" using n by simp
    have 2: "map row_entry (row # new) = e # es"
      unfolding list.map k m ..
    show ?thesis
      by (rule exI [of _ "row # new"]) (rule conjI [OF 1 2])
  qed
qed

lemma batch_loop_completes:
  assumes "\<forall>e \<in> set es. \<exists>r. loop_body round_2dp P d e = Inr r"
  shows "\<exists>rows. batch_loop round_2dp P d acc es = Inr rows"
  using assms
proof (induction es arbitrary: acc)
  case Nil
  show ?case by simp
next
  case (Cons e es)
  from Cons.prems obtain r where r: "loop_body round_2dp P d e = Inr r" by auto
  from Cons.prems have "\<forall>e \<in> set es. \<exists>r. loop_body round_2dp P d e = Inr r" by simp
  from Cons.IH [OF this, of "acc @ [r]"] r show ?case by simp
qed

lemma loop_body_completes:
  assumes "info P fund = Inr i" and "quarterly_balance_sheet P fund = Inr b"
  shows "\<exists>r. loop_body round_2dp P d (fund, nav, rest) = Inr r"
proof -
  obtain types subcategories broadcats regions
    where rest: "rest = (types, subcategories, broadcats, regions)"
    by (cases rest) blast
  have "\<exists>f. get_fundamentals_asof P fund d True = Inr f"
  proof (cases "empty_frame b \<or> valid_dates b (Timestamp d) = []")
    case True
    from fundamentals_none [OF assms(2) True] show ?thesis by blast
  next
    case False
    then have "\<not> empty_frame b" and "valid_dates b (Timestamp d) \<noteq> []" by simp_all
    from fundamentals_selected [OF assms(2) this] show ?thesis by blast
  qed
  then obtain f where f: "get_fundamentals_asof P fund d True = Inr f" by blast
  obtain fp where fp: "get_close_price P fund d (start_date d) (end_date d) = Inr fp"
    using get_close_price_returns by blast
  obtain np where np: "get_close_price P nav d (start_date d) (end_date d) = Inr np"
    using get_close_price_returns by blast
  show ?thesis
    unfolding rest loop_body_def by (simp add: assms(1) f fp np)
qed

lemma entries_funds:
  assumes "(fund, nav, rest) \<in> set (entries (dropna df))"
  shows "\<exists>t \<in> set df. Fund t = Some fund \<and> NAV t \<noteq> None"
  using assms
proof (induction df)
  case Nil
  then show ?case by (simp add: entries_dropna_Nil)
next
  case (Cons t df)
  show ?case
  proof (cases "Fund t")
    case None
    with Cons.prems have "(fund, nav, rest) \<in> set (entries (dropna df))"
      by (simp add: entries_dropna_Cons)
    from Cons.IH [OF this] show ?thesis by simp
  next
    case f: (Some f)
    show ?thesis
    proof (cases "NAV t")
      case None
      with f Cons.prems have "(fund, nav, rest) \<in> set (entries (dropna df))"
        by (simp add: entries_dropna_Cons)
      from Cons.IH [OF this] show ?thesis by simp
    next
      case n: (Some n)
      from f n Cons.prems
      have "fund = f \<or> (fund, nav, rest) \<in> set (entries (dropna df))"
        by (simp add: entries_dropna_Cons) blast
      then show ?thesis
      proof
        assume "fund = f"
        with f n show ?thesis by simp
      next
        assume "(fund, nav, rest) \<in> set (entries (dropna df))"
        from Cons.IH [OF this] show ?thesis by simp
      qed
    qed
  qed
qed

text \<open>
  Claim C8.  Rows of the table with no fund ticker or no NAV ticker are left out without
  any error.  A report that is built has one row for each remaining row of the table, in
  the order of the table, carrying that row's two tickers and four category columns.  A
  report is built whenever the provider answers the name and balance-sheet requests for
  the fund of each remaining row.
\<close>

theorem build_report_rows:
  "(\<forall>rows. build_report round_2dp P df target_date = Inr rows \<longrightarrow>
      map (\<lambda>r. (Some (Fund_Ticker r), Some (NAV_Ticker r), Fund_Type_col r, Subcategory_col r,
                 Broad_Category_col r, Geographic_Focus_col r)) rows =
      map (\<lambda>t. (Fund t, NAV t, Fund_Type t, Subcategory t, Broad_Category t, Geographic_Focus t))
        (filter (\<lambda>t. Fund t \<noteq> None \<and> NAV t \<noteq> None) df)) \<and>
   ((\<forall>t \<in> set df. \<forall>f. Fund t = Some f \<and> NAV t \<noteq> None \<longrightarrow>
        (\<exists>i. info P f = Inr i) \<and> (\<exists>b. quarterly_balance_sheet P f = Inr b)) \<longrightarrow>
      (\<exists>rows. build_report round_2dp P df target_date = Inr rows))"
proof (intro conjI allI impI)
  fix rows
  assume "build_report round_2dp P df target_date = Inr rows"
  then have "batch_loop round_2dp P target_date [] (entries (dropna df)) = Inr rows"
    by (simp add: build_report_def)
  from batch_loop_rows [OF this] have m: "map row_entry rows = entries (dropna df)"
    by simp
  have c: "(\<lambda>(f, n, rest). (Some f, Some n, rest)) \<circ> row_entry =
      (\<lambda>r. (Some (Fund_Ticker r), Some (NAV_Ticker r), Fund_Type_col r, Subcategory_col r,
                 Broad_Category_col r, Geographic_Focus_col r))"
    by (rule ext) (simp add: row_entry_def)
  have "map (\<lambda>r. (Some (Fund_Ticker r), Some (NAV_Ticker r), Fund_Type_col r, Subcategory_col r,
                 Broad_Category_col r, Geographic_Focus_col r)) rows =
      map (\<lambda>(f, n, rest). (Some f, Some n, rest)) (map row_entry rows)"
    unfolding map_map c ..
  also have "\<dots> = map (\<lambda>t. (Fund t, NAV t, Fund_Type t, Subcategory t, Broad_Category t, Geographic_Focus t))
        (filter (\<lambda>t. Fund t \<noteq> None \<and> NAV t \<noteq> None) df)"
    unfolding m by (rule entries_dropna_columns)
  finally show "map (\<lambda>r. (Some (Fund_Ticker r), Some (NAV_Ticker r), Fund_Type_col r, Subcategory_col r,
                 Broad_Category_col r, Geographic_Focus_col r)) rows =
      map (\<lambda>t. (Fund t, NAV t, Fund_Type t, Subcategory t, Broad_Category t, Geographic_Focus t))
        (filter (\<lambda>t. Fund t \<noteq> None \<and> NAV t \<noteq> None) df)" .
next
  assume H: "\<forall>t \<in> set df. \<forall>f. Fund t = Some f \<and> NAV t \<noteq> None \<longrightarrow>
        (\<exists>i. info P f = Inr i) \<and> (\<exists>b. quarterly_balance_sheet P f = Inr b)"
  have "\<forall>e \<in> set (entries (dropna df)). \<exists>r. loop_body round_2dp P target_date e = Inr r"
  proof
    fix e
    assume e: "e \<in> set (entries (dropna df))"
    obtain fund nav rest where s: "e = (fund, nav, rest)"
      by (cases e) simp
    from entries_funds [OF e [unfolded s]]
    obtain t where t: "t \<in> set df" and f: "Fund t = Some fund \<and> NAV t \<noteq> None"
      by (rule bexE)
    from H [rule_format, OF t f]
    obtain i b where "info P fund = Inr i" and "quarterly_balance_sheet P fund = Inr b"
      by (elim conjE exE)
    then show "\<exists>r. loop_body round_2dp P target_date e = Inr r"
      unfolding s by (rule loop_body_completes)
  qed
  from batch_loop_completes [OF this]
  show "\<exists>rows. build_report round_2dp P df target_date = Inr rows"
    unfolding build_report_def .
qed

theorem build_report_rows_witness:
  "length sample_table = 2 \<and>
   (\<exists>rows. build_report half_even_hundredths sample_provider sample_table 19723 = Inr rows \<and>
      map Fund_Ticker rows = [''PDI''] \<and> map NAV_Ticker rows = [''XPDIX''])"
proof -
  have H: "\<forall>t \<in> set sample_table. \<forall>f. Fund t = Some f \<and> NAV t \<noteq> None \<longrightarrow>
        (\<exists>i. info sample_provider f = Inr i) \<and> (\<exists>b. quarterly_balance_sheet sample_provider f = Inr b)"
    by (simp add: sample_table_def sample_provider_def)
  have f: "filter (\<lambda>t. Fund t \<noteq> None \<and> NAV t \<noteq> None) sample_table =
      [\<lparr>Fund = Some ''PDI'', NAV = Some ''XPDIX'', Fund_Type = Some ''CEF'',
        Subcategory = Some ''Multisector'', Broad_Category = Some ''Fixed Income'',
        Geographic_Focus = None\<rparr>]"
    by (simp add: sample_table_def)
  note br = build_report_rows [of half_even_hundredths sample_provider sample_table 19723]
  from br [THEN conjunct2, THEN mp, OF H]
  obtain rows where b: "build_report half_even_hundredths sample_provider sample_table 19723 = Inr rows"
    by (rule exE)
  from br [THEN conjunct1, rule_format, OF b]
  have m: "map (\<lambda>r. (Some (Fund_Ticker r), Some (NAV_Ticker r), Fund_Type_col r, Subcategory_col r,
                 Broad_Category_col r, Geographic_Focus_col r)) rows =
      [(Some ''PDI'', Some ''XPDIX'', Some ''CEF'', Some ''Multisector'', Some ''Fixed Income'', None)]"
    unfolding f by simp
  have "map Fund_Ticker rows = map (the \<circ> fst)
      (map (\<lambda>r. (Some (Fund_Ticker r), Some (NAV_Ticker r), Fund_Type_col r, Subcategory_col r,
                 Broad_Category_col r, Geographic_Focus_col r)) rows)"
    by (simp add: comp_def)
  then have 1: "map Fund_Ticker rows = [''PDI'']"
    unfolding m by simp
  have "map NAV_Ticker rows = map (the \<circ> fst \<circ> snd)
      (map (\<lambda>r. (Some (Fund_Ticker r), Some (NAV_Ticker r), Fund_Type_col r, Subcategory_col r,
                 Broad_Category_col r, Geographic_Focus_col r)) rows)"
    by (simp add: comp_def)
  then have 2: "map NAV_Ticker rows = [''XPDIX'']"
    unfolding m by simp
  have 3: "length sample_table = 2"
    by (simp add: sample_table_def)
  from b 1 2 have "\<exists>rows. build_report half_even_hundredths sample_provider sample_table 19723 = Inr rows \<and>
      map Fund_Ticker rows = [''PDI''] \<and> map NAV_Ticker rows = [''XPDIX'']"
    by (intro exI [of _ rows] conjI)
  with 3 show ?thesis by (rule conjI)
qed

section \<open>The outside equity\<close>

lemma first_present_variant:
  assumes "outside_equity_variant b b'"
    and "''Preferred Securities Outside Stock Equity'' \<notin> set rows"
  shows "first_present rows b' latest v = first_present rows b latest v"
  using assms(2)
proof (induction rows)
  case Nil
  show ?case by simp
next
  case (Cons row rows)
  then have r: "row \<noteq> ''Preferred Securities Outside Stock Equity''"
    and rs: "''Preferred Securities Outside Stock Equity'' \<notin> set rows"
    by auto
  from assms(1) r have c: "b_cell b' row latest = b_cell b row latest"
    and i: "b_index b' = b_index b"
    unfolding outside_equity_variant_def by simp_all
  show ?case
    unfolding first_present.simps c i Cons.IH [OF rs] ..
qed

lemma fundamentals_variant:
  assumes "outside_equity_variant_run P P'"
  shows "map_sum id (\<lambda>f. (shares_outstanding f, total_debt f)) (get_fundamentals_asof P' ticker d True) =
         map_sum id (\<lambda>f. (shares_outstanding f, total_debt f)) (get_fundamentals_asof P ticker d True)"
proof (cases "quarterly_balance_sheet P ticker")
  case (Inl e)
  with assms have "quarterly_balance_sheet P' ticker = Inl e"
    unfolding outside_equity_variant_run_def by (simp split: sum.splits)
  with Inl show ?thesis
    by (simp add: get_fundamentals_asof_def)
next
  case (Inr b)
  from assms have "\<forall>ticker. case quarterly_balance_sheet P ticker of
          Inl e \<Rightarrow> quarterly_balance_sheet P' ticker = Inl e
        | Inr b \<Rightarrow> (\<exists>b'. quarterly_balance_sheet P' ticker = Inr b' \<and> outside_equity_variant b b')"
    unfolding outside_equity_variant_run_def by simp
  then have "case quarterly_balance_sheet P ticker of
          Inl e \<Rightarrow> quarterly_balance_sheet P' ticker = Inl e
        | Inr b \<Rightarrow> (\<exists>b'. quarterly_balance_sheet P' ticker = Inr b' \<and> outside_equity_variant b b')"
    by (rule spec)
  then obtain b' where q': "quarterly_balance_sheet P' ticker = Inr b'"
    and v: "outside_equity_variant b b'"
    unfolding Inr by auto
  from v have em: "empty_frame b' = empty_frame b"
    and vd: "valid_dates b' (Timestamp d) = valid_dates b (Timestamp d)"
    unfolding outside_equity_variant_def empty_frame_def valid_dates_def by simp_all
  show ?thesis
  proof (cases "empty_frame b \<or> valid_dates b (Timestamp d) = []")
    case True
    then have "empty_frame b' \<or> valid_dates b' (Timestamp d) = []"
      unfolding em vd .
    from fundamentals_none [OF q' this] fundamentals_none [OF Inr True]
    show ?thesis by simp
  next
    case False
    then have ne: "\<not> empty_frame b" and nv: "valid_dates b (Timestamp d) \<noteq> []"
      by simp_all
    from ne nv have ne': "\<not> empty_frame b'" and nv': "valid_dates b' (Timestamp d) \<noteq> []"
      unfolding em vd by simp_all
    have s: "first_present [''Ordinary Shares Number'', ''Share Issued''] b' latest None =
        first_present [''Ordinary Shares Number'', ''Share Issued''] b latest None" for latest
      by (rule first_present_variant [OF v]) simp
    have t: "first_present [''Total Debt'', ''Long Term Debt'', ''Current Debt''] b' latest None =
        first_present [''Total Debt'', ''Long Term Debt'', ''Current Debt''] b latest None" for latest
      by (rule first_present_variant [OF v]) simp
    show ?thesis
      unfolding fundamentals_selected [OF q' ne' nv'] fundamentals_selected [OF Inr ne nv] vd
      by (simp add: s t del: first_present.simps)
  qed
qed

lemma loop_body_variant:
  assumes "outside_equity_variant_run P P'"
  shows "loop_body round_2dp P' d e = loop_body round_2dp P d e"
proof -
  obtain fund nav types subcategories broadcats regions
    where e: "e = (fund, nav, types, subcategories, broadcats, regions)"
    by (cases e) blast
  from assms have h: "history P' = history P" and i: "info P' = info P"
    unfolding outside_equity_variant_run_def by simp_all
  have g: "get_close_price P' t d s u = get_close_price P t d s u" for t s u
    by (simp add: get_close_price_def get_close_price_try_def h)
  note f = fundamentals_variant [OF assms, of fund d]
  show ?thesis
  proof (cases "get_fundamentals_asof P fund d True")
    case (Inl x)
    with f have "get_fundamentals_asof P' fund d True = Inl x"
      by (cases "get_fundamentals_asof P' fund d True") simp_all
    with Inl show ?thesis
      unfolding e loop_body_def by (simp add: i split: sum.splits)
  next
    case (Inr fnd)
    with f obtain fnd' where f': "get_fundamentals_asof P' fund d True = Inr fnd'"
      and s: "shares_outstanding fnd' = shares_outstanding fnd"
      and t: "total_debt fnd' = total_debt fnd"
      by (cases "get_fundamentals_asof P' fund d True") simp_all
    show ?thesis
      unfolding e loop_body_def by (simp add: i g Inr f' s t split: sum.splits)
  qed
qed

lemma batch_loop_variant:
  assumes "outside_equity_variant_run P P'"
  shows "batch_loop round_2dp P' d acc es = batch_loop round_2dp P d acc es"
proof (induction es arbitrary: acc)
  case Nil
  show ?case by simp
next
  case (Cons e es)
  show ?case
    unfolding batch_loop.simps loop_body_variant [OF assms] Cons.IH ..
qed

text \<open>
  Claim C10.  Two runs against providers that agree on everything but the values reported
  in the row "Preferred Securities Outside Stock Equity" of the balance sheets end the same
  way: with the same report, row for row, or with the same exception.  The outside equity
  is read and then not used.
\<close>

theorem report_independent_of_outside_equity:
  assumes "outside_equity_variant_run P P'"
  shows "build_report round_2dp P' df target_date = build_report round_2dp P df target_date"
  unfolding build_report_def by (rule batch_loop_variant [OF assms])

theorem report_independent_of_outside_equity_witness:
  "outside_equity (projr (get_fundamentals_asof sample_provider ''PDI'' 19723 True)) = Some 5000000 \<and>
   outside_equity (projr (get_fundamentals_asof variant_provider ''PDI'' 19723 True)) = Some 9999999 \<and>
   build_report half_even_hundredths variant_provider sample_table 19723 = build_report half_even_hundredths sample_provider sample_table 19723"
proof -
  have v: "outside_equity_variant sample_balance variant_balance"
    by (simp add: outside_equity_variant_def variant_balance_def)
  have r: "outside_equity_variant_run sample_provider variant_provider"
    unfolding outside_equity_variant_run_def
    by (simp add: sample_provider_def variant_provider_def v)
  have 1: "outside_equity (projr (get_fundamentals_asof sample_provider ''PDI'' 19723 True)) = Some 5000000"
    by (simp add: get_fundamentals_asof_def sample_provider_def sample_balance_def
        empty_frame_def valid_dates_def Timestamp_def ns_per_day_def)
  have 2: "outside_equity (projr (get_fundamentals_asof variant_provider ''PDI'' 19723 True)) = Some 9999999"
    by (simp add: get_fundamentals_asof_def variant_provider_def variant_balance_def
        sample_provider_def sample_balance_def
        empty_frame_def valid_dates_def Timestamp_def ns_per_day_def)
  from report_independent_of_outside_equity [OF r, of half_even_hundredths sample_table 19723] 1 2
  show ?thesis by (intro conjI)
qed

end
